theory Spec2Isabelle
  imports Complex_Main "HOL-Library.Multiset"
begin

section \<open>c3bottles: drop points, their state, priority and history\<close>

text \<open>
  A shallow embedding of \<^verbatim>\<open>c3bottles/model/drop_point.py\<close> (class \<^verbatim>\<open>DropPoint\<close>)
  and of \<^verbatim>\<open>c3bottles/lib/statistics.py\<close> (\<^verbatim>\<open>Statistics.drop_points_by_state\<close>).

  Conventions of the embedding:
  \<^item> a \<^verbatim>\<open>datetime\<close> is an integer number of microseconds (the resolution of
    Python's \<^verbatim>\<open>datetime\<close>); \<^verbatim>\<open>datetime.today()\<close> is an explicit argument \<open>today\<close>;
  \<^item> Python floats are idealised as exact rationals: the arithmetic of the priority
    computation is carried out in \<open>rat\<close>, and \<^verbatim>\<open>round(x, 2)\<close> is rounding to the
    nearest multiple of 1/100, halves to even;
  \<^item> the rows a query returns are a list in table order; \<^verbatim>\<open>order_by\<close> is a stable
    sort of that list (SQL leaves the order of rows with equal keys open);
  \<^item> a raised exception is a value of \<open>py_error\<close>;
  \<^item> \<^verbatim>\<open>Report.states\<close>, \<^verbatim>\<open>Visit.actions\<close> and \<^verbatim>\<open>Report.get_weight\<close> are declared in
    modules that are not part of the sources at hand; they are parameters.
\<close>

subsection \<open>Data model\<close>

type_synonym datetime = int

datatype py_error =
  IndexError | ZeroDivisionError | RuntimeError | TypeError | ValueError
  | AttributeError | StoreError

record report =
  report_id :: nat
  report_time :: datetime
  report_state :: string

record visit =
  visit_id :: nat
  visit_time :: datetime
  visit_action :: string

record location =
  location_id :: nat
  location_time :: datetime
  location_description :: string
  location_lat :: rat
  location_lng :: rat
  location_level :: int

text \<open>
  The columns and relationships of \<^verbatim>\<open>DropPoint\<close>. The three relationships hold the rows
  of the related tables in table order; \<open>dp_removed = None\<close> is the null column of a
  drop point that has not been removed.
\<close>

record drop_point =
  dp_number :: int
  dp_time :: datetime
  dp_removed :: "datetime option"
  dp_location_rows :: "location list"
  dp_reports :: "report list"
  dp_visits :: "visit list"
  dp_type :: string

text \<open>
  \<^verbatim>\<open>c3bottles.config\<close>: a key that is not set is \<open>None\<close>, and \<^verbatim>\<open>config.get(key, default)\<close>
  then gives the default.
\<close>

record config =
  DEFAULT_VISIT_PRIORITY :: "rat option"
  BASE_VISIT_INTERVAL :: "rat option"

definition config_get :: "'a option \<Rightarrow> 'a \<Rightarrow> 'a" where
  "config_get entry dflt = (case entry of None \<Rightarrow> dflt | Some v \<Rightarrow> v)"

subsection \<open>Python and SQL primitives\<close>

text \<open>\<^verbatim>\<open>xs[i]\<close>: a negative index counts from the end, an index out of range raises.\<close>

definition py_getitem :: "'a list \<Rightarrow> int \<Rightarrow> py_error + 'a" where
  "py_getitem xs i =
     (if 0 \<le> i \<and> i < int (length xs) then Inr (xs ! nat i)
      else if i < 0 \<and> - int (length xs) \<le> i then Inr (xs ! nat (int (length xs) + i))
      else Inl IndexError)"

text \<open>
  \<^verbatim>\<open>sorted(xs, key=key, reverse=True)\<close> and \<^verbatim>\<open>order_by(key.desc())\<close>: descending by key,
  elements with equal keys in their original order.
\<close>

definition sorted_desc :: "('a \<Rightarrow> datetime) \<Rightarrow> 'a list \<Rightarrow> 'a list" where
  "sorted_desc key xs = rev (sort_key key (rev xs))"

text \<open>\<^verbatim>\<open>query.first()\<close>: the first row, or \<^verbatim>\<open>None\<close>.\<close>

definition first :: "'a list \<Rightarrow> 'a option" where
  "first xs = (case xs of [] \<Rightarrow> None | x # _ \<Rightarrow> Some x)"

text \<open>\<^verbatim>\<open>timedelta.total_seconds()\<close> of a difference in microseconds.\<close>

definition total_seconds :: "int \<Rightarrow> rat" where
  "total_seconds d = of_int d / 1000000"

text \<open>\<^verbatim>\<open>round(x, 2)\<close>.\<close>

definition round_half_even :: "rat \<Rightarrow> int" where
  "round_half_even y =
     (let f = \<lfloor>y\<rfloor>; d = y - of_int f
      in if d < 1 / 2 then f else if 1 / 2 < d then f + 1
         else if even f then f else f + 1)"

definition py_round2 :: "rat \<Rightarrow> rat" where
  "py_round2 x = of_int (round_half_even (x * 100)) / 100"

subsection \<open>Queries on a drop point\<close>

text \<open>The relationship \<^verbatim>\<open>locations\<close> is declared with \<^verbatim>\<open>order_by="Location.time"\<close>.\<close>

definition locations :: "drop_point \<Rightarrow> location list" where
  "locations dp = sort_key location_time (dp_location_rows dp)"

definition get_current_location :: "drop_point \<Rightarrow> location option" where
  "get_current_location dp =
     (if locations dp \<noteq> [] then Some (last (locations dp)) else None)"

definition get_last_report :: "drop_point \<Rightarrow> report option" where
  "get_last_report dp = first (sorted_desc report_time (dp_reports dp))"

definition get_last_visit :: "drop_point \<Rightarrow> visit option" where
  "get_last_visit dp = first (sorted_desc visit_time (dp_visits dp))"

definition get_new_reports :: "drop_point \<Rightarrow> report list" where
  "get_new_reports dp =
     (case get_last_visit dp of
        Some last_visit \<Rightarrow>
          sorted_desc report_time
            (filter (\<lambda>r. visit_time last_visit < report_time r) (dp_reports dp))
      | None \<Rightarrow> sorted_desc report_time (dp_reports dp))"

subsection \<open>The state of a drop point\<close>

text \<open>
  The loop over the visits since the last report. \<open>Inr None\<close> is the loop running to
  its end without returning.
\<close>

fun visits_loop :: "string list \<Rightarrow> string list \<Rightarrow> visit list \<Rightarrow> py_error + string option" where
  "visits_loop states actions [] = Inr None"
| "visits_loop states actions (v # vs) =
     (case py_getitem actions 0 of
        Inl e \<Rightarrow> Inl e
      | Inr emptied \<Rightarrow>
          if visit_action v = emptied then
            (case py_getitem states (- 1) of Inl e \<Rightarrow> Inl e | Inr s \<Rightarrow> Inr (Some s))
          else visits_loop states actions vs)"

text \<open>
  The part of \<^verbatim>\<open>get_last_state\<close> after its first \<^verbatim>\<open>if\<close> block, which is reached whenever
  that block does not return.
\<close>

definition last_report_or_visit_state ::
  "string list \<Rightarrow> string list \<Rightarrow> report option \<Rightarrow> visit option \<Rightarrow> py_error + string" where
  "last_report_or_visit_state states actions last_report last_visit =
     (case last_report of
        Some r \<Rightarrow> Inr (report_state r)
      | None \<Rightarrow>
          (case last_visit of
             Some v \<Rightarrow>
               (case py_getitem actions 0 of
                  Inl e \<Rightarrow> Inl e
                | Inr emptied \<Rightarrow>
                    if visit_action v = emptied then py_getitem states (- 1)
                    else py_getitem states 1)
           | None \<Rightarrow> py_getitem states 1))"

definition get_last_state :: "string list \<Rightarrow> string list \<Rightarrow> drop_point \<Rightarrow> py_error + string" where
  "get_last_state states actions dp =
     (let last_report = get_last_report dp; last_visit = get_last_visit dp
      in case (last_report, last_visit) of
           (Some r, Some v) \<Rightarrow>
             if report_time r < visit_time v then
               (case visits_loop states actions
                       (sorted_desc visit_time
                          (filter (\<lambda>w. report_time r < visit_time w) (dp_visits dp))) of
                  Inl e \<Rightarrow> Inl e
                | Inr (Some s) \<Rightarrow> Inr s
                | Inr None \<Rightarrow> Inr (report_state r))
             else last_report_or_visit_state states actions last_report last_visit
         | _ \<Rightarrow> last_report_or_visit_state states actions last_report last_visit)"

subsection \<open>The priority of a drop point\<close>

definition get_visit_interval :: "config \<Rightarrow> rat" where
  "get_visit_interval cfg = 60 * config_get (BASE_VISIT_INTERVAL cfg) 120"

text \<open>
  The loop \<^verbatim>\<open>for report in new_reports: priority += report.get_weight() / 2**i; i += 1\<close>
  with its two variables.
\<close>

fun weight_loop :: "(report \<Rightarrow> rat) \<Rightarrow> rat \<Rightarrow> nat \<Rightarrow> report list \<Rightarrow> rat" where
  "weight_loop get_weight priority i [] = priority"
| "weight_loop get_weight priority i (r # rs) =
     weight_loop get_weight (priority + get_weight r / 2 ^ i) (i + 1) rs"

text \<open>\<^verbatim>\<open>a / b\<close> on floats raises when \<open>b\<close> is zero.\<close>

definition py_truediv :: "rat \<Rightarrow> rat \<Rightarrow> py_error + rat" where
  "py_truediv a b = (if b = 0 then Inl ZeroDivisionError else Inr (a / b))"

definition get_priority_factor ::
  "config \<Rightarrow> (report \<Rightarrow> rat) \<Rightarrow> drop_point \<Rightarrow> py_error + rat" where
  "get_priority_factor cfg get_weight dp =
     (if dp_removed dp \<noteq> None then Inr 0
      else
        let new_reports = get_new_reports dp;
            priority = config_get (DEFAULT_VISIT_PRIORITY cfg) 1;
            priority = weight_loop get_weight priority 0 new_reports
        in py_truediv priority (1 * get_visit_interval cfg))"

definition get_priority_base_time :: "drop_point \<Rightarrow> datetime" where
  "get_priority_base_time dp =
     (case get_last_visit dp of Some last_visit \<Rightarrow> visit_time last_visit | None \<Rightarrow> dp_time dp)"

definition get_priority ::
  "config \<Rightarrow> (report \<Rightarrow> rat) \<Rightarrow> datetime \<Rightarrow> drop_point \<Rightarrow> py_error + rat" where
  "get_priority cfg get_weight today dp =
     (case get_priority_factor cfg get_weight dp of
        Inl e \<Rightarrow> Inl e
      | Inr factor \<Rightarrow>
          Inr (py_round2 (factor * total_seconds (today - get_priority_base_time dp))))"

subsection \<open>Removing a drop point\<close>

text \<open>
  The argument \<^verbatim>\<open>time\<close> of \<^verbatim>\<open>remove\<close>: \<^verbatim>\<open>None\<close>, a \<^verbatim>\<open>datetime\<close> (always true in a
  condition), or any other object that is true in a condition. An object that is false
  in a condition passes every check as \<^verbatim>\<open>None\<close> does.
\<close>

datatype time_arg = ArgNone | ArgDatetime datetime | ArgOther

text \<open>
  \<^verbatim>\<open>remove\<close> mutates the drop point, so it returns the exception raised, if any, and
  the drop point as it is afterwards.
\<close>

definition remove_dp :: "drop_point \<Rightarrow> time_arg \<Rightarrow> datetime \<Rightarrow> py_error option \<times> drop_point" where
  "remove_dp dp time today =
     (if dp_removed dp \<noteq> None then (Some RuntimeError, dp)
      else if time = ArgOther then (Some TypeError, dp)
      else
        (case time of
           ArgDatetime t \<Rightarrow>
             if today < t then (Some ValueError, dp)
             else (None, dp\<lparr>dp_removed := Some t\<rparr>)
         | _ \<Rightarrow> (None, dp\<lparr>dp_removed := Some today\<rparr>)))"

subsection \<open>The history of a drop point\<close>

text \<open>
  The dictionaries of \<^verbatim>\<open>get_history\<close>: each has the key \<^verbatim>\<open>"time"\<close> and one of the keys
  \<^verbatim>\<open>"visit"\<close>, \<^verbatim>\<open>"report"\<close>, \<^verbatim>\<open>"location"\<close>, \<^verbatim>\<open>"drop_point"\<close> (the drop point itself,
  here its number) and \<^verbatim>\<open>"removed"\<close>.
\<close>

datatype history_entry =
  VisitEntry datetime visit
  | ReportEntry datetime report
  | LocationEntry datetime location
  | DropPointEntry datetime int
  | RemovedEntry datetime

fun entry_time :: "history_entry \<Rightarrow> datetime" where
  "entry_time (VisitEntry t _) = t"
| "entry_time (ReportEntry t _) = t"
| "entry_time (LocationEntry t _) = t"
| "entry_time (DropPointEntry t _) = t"
| "entry_time (RemovedEntry t) = t"

text \<open>The list \<^verbatim>\<open>history\<close> as it is before it is sorted.\<close>

definition history_entries :: "drop_point \<Rightarrow> history_entry list" where
  "history_entries dp =
     map (\<lambda>v. VisitEntry (visit_time v) v) (dp_visits dp)
     @ map (\<lambda>r. ReportEntry (report_time r) r) (dp_reports dp)
     @ map (\<lambda>l. LocationEntry (location_time l) l) (locations dp)
     @ [DropPointEntry (dp_time dp) (dp_number dp)]
     @ (case dp_removed dp of Some t \<Rightarrow> [RemovedEntry t] | None \<Rightarrow> [])"

definition get_history :: "drop_point \<Rightarrow> history_entry list" where
  "get_history dp = sorted_desc entry_time (history_entries dp)"

subsection \<open>Statistics\<close>

text \<open>
  The names class \<^verbatim>\<open>DropPoint\<close> defines: its columns, relationships and methods (with
  those every model class has). Reading any other attribute of a drop point raises
  \<^verbatim>\<open>AttributeError\<close>.
\<close>

definition DropPoint_attributes :: "string list" where
  "DropPoint_attributes =
     [''number'', ''time'', ''removed'', ''locations'', ''reports'', ''visits'', ''type'',
      ''remove'', ''report'', ''visit'', ''get_typename'', ''get_current_location'',
      ''get_total_report_count'', ''get_new_report_count'', ''get_last_state'',
      ''get_last_report'', ''get_last_visit'', ''get_new_reports'', ''get_history'',
      ''get_visit_interval'', ''get_priority_factor'', ''get_priority_base_time'',
      ''get_priority'', ''get'', ''get_dp_info'', ''get_dp_json'', ''get_dps_json'',
      ''get_next_free_number'', ''__init__'', ''__repr__'', ''query'', ''metadata'']"

text \<open>
  \<^verbatim>\<open>dp.last_state\<close>. Were the name defined, it would be the state of the drop point.
\<close>

definition last_state :: "string list \<Rightarrow> string list \<Rightarrow> drop_point \<Rightarrow> py_error + string" where
  "last_state states actions dp =
     (if ''last_state'' \<in> set DropPoint_attributes then get_last_state states actions dp
      else Inl AttributeError)"

text \<open>
  The loop over the drop points inside the \<^verbatim>\<open>try\<close> block. It updates the dictionary
  \<open>ret\<close> in place, so what it has written stays when an exception ends it.
\<close>

fun tally_loop ::
  "string list \<Rightarrow> string list \<Rightarrow> (string \<rightharpoonup> nat) \<Rightarrow> drop_point list
     \<Rightarrow> py_error option \<times> (string \<rightharpoonup> nat)" where
  "tally_loop states actions ret [] = (None, ret)"
| "tally_loop states actions ret (dp # dps) =
     (if dp_removed dp = None then
        (case last_state states actions dp of
           Inl e \<Rightarrow> (Some e, ret)
         | Inr s \<Rightarrow>
             tally_loop states actions
               (ret(s \<mapsto> (case ret s of Some n \<Rightarrow> n + 1 | None \<Rightarrow> 1))) dps)
      else tally_loop states actions ret dps)"

text \<open>
  \<open>query_all\<close> is the outcome of \<^verbatim>\<open>DropPoint.query.all()\<close>: the drop points, or the
  exception of a store that fails.
\<close>

definition drop_points_by_state ::
  "string list \<Rightarrow> string list \<Rightarrow> py_error + drop_point list \<Rightarrow> (string \<rightharpoonup> nat)" where
  "drop_points_by_state states actions query_all =
     (let ret = fold (\<lambda>state ret. ret(state \<mapsto> 0)) states Map.empty
      in case query_all of
           Inl e \<Rightarrow> ret
         | Inr dps \<Rightarrow> snd (tally_loop states actions ret dps))"

subsection \<open>Example data\<close>

text \<open>
  Concrete drop points, with times in microseconds, on which the theorems below are
  instantiated. The states and actions are examples of what \<^verbatim>\<open>Report.states\<close> and
  \<^verbatim>\<open>Visit.actions\<close> may hold.
\<close>

definition example_states :: "string list" where
  "example_states = [''DEFAULT'', ''NEW'', ''FULL'', ''EMPTY'']"

definition example_actions :: "string list" where
  "example_actions = [''EMPTIED'', ''ADDED_CRATE'']"

definition default_config :: config where
  "default_config = \<lparr>DEFAULT_VISIT_PRIORITY = None, BASE_VISIT_INTERVAL = None\<rparr>"

definition example_location :: location where
  "example_location = \<lparr>location_id = 1, location_time = 0, location_description = ''hall'',
     location_lat = 0, location_lng = 0, location_level = 0\<rparr>"

definition fresh_dp :: drop_point where
  "fresh_dp = \<lparr>dp_number = 1, dp_time = 0, dp_removed = None,
     dp_location_rows = [example_location], dp_reports = [], dp_visits = [],
     dp_type = ''bottle''\<rparr>"

definition full_report :: report where
  "full_report = \<lparr>report_id = 1, report_time = 1000000000, report_state = ''FULL''\<rparr>"

definition emptying_visit :: visit where
  "emptying_visit = \<lparr>visit_id = 1, visit_time = 2000000000, visit_action = ''EMPTIED''\<rparr>"

definition reported_dp :: drop_point where
  "reported_dp = fresh_dp\<lparr>dp_reports := [full_report]\<rparr>"

definition emptied_dp :: drop_point where
  "emptied_dp = fresh_dp\<lparr>dp_reports := [full_report], dp_visits := [emptying_visit]\<rparr>"

definition removed_dp :: drop_point where
  "removed_dp = emptied_dp\<lparr>dp_removed := Some 3000000000\<rparr>"



definition late_created_dp :: drop_point where
  "late_created_dp = fresh_dp\<lparr>dp_time := 1000000000\<rparr>"

definition future_location :: location where
  "future_location = \<lparr>location_id = 2, location_time = 9000000000,
     location_description = ''lounge'', location_lat = 1, location_lng = 1, location_level = 1\<rparr>"

definition relocated_dp :: drop_point where
  "relocated_dp = fresh_dp\<lparr>dp_location_rows := [example_location, future_location]\<rparr>"

definition equal_times_dp :: drop_point where
  "equal_times_dp = fresh_dp\<lparr>dp_reports := [full_report],
     dp_visits := [emptying_visit\<lparr>visit_time := 1000000000\<rparr>],
     dp_removed := Some 1000000000\<rparr>"

lemmas example_defs = example_states_def example_actions_def default_config_def
  example_location_def fresh_dp_def full_report_def emptying_visit_def reported_dp_def
  emptied_dp_def removed_dp_def

lemmas query_defs = get_last_report_def get_last_visit_def get_new_reports_def
  sorted_desc_def first_def


section \<open>Properties\<close>

subsection \<open>Sorting, indexing and rounding\<close>

lemma set_sorted_desc: "set (sorted_desc key xs) = set xs"
  by (simp add: sorted_desc_def)

lemma mset_sorted_desc: "mset (sorted_desc key xs) = mset xs"
  by (simp add: sorted_desc_def)

lemma sorted_desc_descending:
  "sorted_wrt (\<lambda>a b. key b \<le> key a) (sorted_desc key xs)"
proof -
  have "sorted (map key (sort_key key (rev xs)))" by simp
  then have "sorted_wrt (\<lambda>a b. key a \<le> key b) (sort_key key (rev xs))"
    by (simp add: sorted_map)
  then show ?thesis
    by (simp add: sorted_desc_def sorted_wrt_rev)
qed

lemma sorted_desc_stable:
  "filter (\<lambda>y. key y = k) (sorted_desc key xs) = filter (\<lambda>y. key y = k) xs"
  by (simp add: sorted_desc_def sort_key_stable flip: rev_filter)

lemma sorted_desc_Nil: "sorted_desc key xs = [] \<longleftrightarrow> xs = []"
  by (metis set_sorted_desc set_empty)

lemma first_None: "first xs = None \<longleftrightarrow> xs = []"
  by (simp add: first_def split: list.splits)

lemma first_sorted_desc_None: "first (sorted_desc key xs) = None \<longleftrightarrow> xs = []"
  by (simp add: first_None sorted_desc_Nil)

lemma first_sorted_desc_Some:
  assumes "first (sorted_desc key xs) = Some x"
  shows "x \<in> set xs \<and> (\<forall>y\<in>set xs. key y \<le> key x)"
proof -
  from assms obtain ys where ys: "sorted_desc key xs = x # ys"
    by (auto simp: first_def split: list.splits)
  have "set (x # ys) = set xs" using set_sorted_desc [of key xs] ys by simp
  moreover have "sorted_wrt (\<lambda>a b. key b \<le> key a) (x # ys)"
    using sorted_desc_descending [of key xs] ys by simp
  ultimately show ?thesis by auto
qed

lemma get_last_visit_latest:
  "get_last_visit dp = Some V \<Longrightarrow>
     V \<in> set (dp_visits dp) \<and> (\<forall>u\<in>set (dp_visits dp). visit_time u \<le> visit_time V)"
  unfolding get_last_visit_def by (rule first_sorted_desc_Some)

lemma get_last_visit_None: "get_last_visit dp = None \<longleftrightarrow> dp_visits dp = []"
  by (simp add: get_last_visit_def first_sorted_desc_None)

lemma get_last_report_latest:
  "get_last_report dp = Some R \<Longrightarrow>
     R \<in> set (dp_reports dp) \<and> (\<forall>r\<in>set (dp_reports dp). report_time r \<le> report_time R)"
  unfolding get_last_report_def by (rule first_sorted_desc_Some)

lemma get_last_report_None: "get_last_report dp = None \<longleftrightarrow> dp_reports dp = []"
  by (simp add: get_last_report_def first_sorted_desc_None)

lemma py_getitem_0: "xs \<noteq> [] \<Longrightarrow> py_getitem xs 0 = Inr (xs ! 0)"
  by (simp add: py_getitem_def)

lemma py_getitem_last: "xs \<noteq> [] \<Longrightarrow> py_getitem xs (- 1) = Inr (last xs)"
  by (cases xs rule: rev_cases) (auto simp: py_getitem_def nth_append)


lemma visits_loop_result:
  assumes "actions \<noteq> []" "states \<noteq> []"
  shows "visits_loop states actions vs =
           Inr (if \<exists>v\<in>set vs. visit_action v = actions ! 0 then Some (last states) else None)"
  using assms by (induction vs) (auto simp: py_getitem_0 py_getitem_last)





lemma py_round2_0: "py_round2 0 = 0"
  by (simp add: py_round2_def round_half_even_def)

lemma py_round2_hundredths: "\<exists>n::int. py_round2 x = of_int n / 100"
  by (auto simp: py_round2_def)

lemma py_round2_near: "\<bar>py_round2 x - x\<bar> \<le> 1 / 200"
proof -
  have "\<bar>of_int (round_half_even y) - y\<bar> \<le> 1 / 2" for y :: rat
  proof -
    have "0 \<le> y - of_int \<lfloor>y\<rfloor>" "y - of_int \<lfloor>y\<rfloor> < 1" by linarith+
    then show ?thesis
      by (auto simp: round_half_even_def Let_def abs_le_iff)
  qed
  from this [of "x * 100"] show ?thesis
    by (simp add: py_round2_def field_simps abs_le_iff)
qed






subsection \<open>The priority\<close>



text \<open>
  Claim C2. For a drop point whose \<open>removed\<close> time is set, factor and score are both 0,
  whatever its reports and visits and whatever the configuration.
\<close>

theorem removed_priority_zero:
  assumes "dp_removed dp = Some t"
  shows "get_priority_factor cfg get_weight dp = Inr 0
         \<and> get_priority cfg get_weight today dp = Inr 0"
  using assms by (simp add: get_priority_factor_def get_priority_def py_round2_0)

theorem removed_priority_zero_witness:
  "dp_removed removed_dp = Some 3000000000
   \<and> get_priority_factor default_config (\<lambda>r. 4) removed_dp = Inr 0
   \<and> get_priority default_config (\<lambda>r. 4) 3600000000 removed_dp = Inr 0"
proof -
  have r: "dp_removed removed_dp = Some 3000000000" by (simp add: example_defs)
  from removed_priority_zero [OF r] r show ?thesis by simp
qed

subsection \<open>The state\<close>

text \<open>
  Claim C3. When the last report \<open>R\<close> and the last visit \<open>V\<close> both exist and \<open>V\<close> is
  strictly later than \<open>R\<close>: if some visit strictly later than \<open>R\<close> has the emptying action
  (\<open>actions ! 0\<close>), the state is the last of \<open>states\<close>; otherwise it is the state \<open>R\<close>
  reported.
\<close>

theorem get_last_state_visit_after_report:
  assumes "get_last_report dp = Some R" and "get_last_visit dp = Some V"
    and "report_time R < visit_time V" and "actions \<noteq> []" and "states \<noteq> []"
  shows "get_last_state states actions dp =
           Inr (if \<exists>v\<in>set (dp_visits dp). report_time R < visit_time v \<and> visit_action v = actions ! 0
                then last states else report_state R)"
  using assms
  by (auto simp: get_last_state_def visits_loop_result set_sorted_desc)

theorem get_last_state_visit_after_report_witness:
  "get_last_report emptied_dp = Some full_report
   \<and> get_last_visit emptied_dp = Some emptying_visit
   \<and> report_time full_report < visit_time emptying_visit
   \<and> example_actions \<noteq> [] \<and> example_states \<noteq> []
   \<and> get_last_state example_states example_actions emptied_dp = Inr ''EMPTY''"
proof -
  have r: "get_last_report emptied_dp = Some full_report"
    by (simp add: query_defs example_defs)
  have v: "get_last_visit emptied_dp = Some emptying_visit"
    by (simp add: query_defs example_defs)
  have t: "report_time full_report < visit_time emptying_visit"
    by (simp add: example_defs)
  have a: "example_actions \<noteq> []" and s: "example_states \<noteq> []"
    by (simp_all add: example_defs)
  from get_last_state_visit_after_report [OF r v t a s] r v t a s show ?thesis
    by (simp add: example_defs)
qed

text \<open>
  Claim C4. When the last report \<open>R\<close> and the last visit \<open>V\<close> both exist and \<open>R\<close> is not
  earlier than \<open>V\<close> (equal times included), the state is the one \<open>R\<close> reported, whatever
  the actions of the visits.
\<close>

theorem get_last_state_report_not_before_visit:
  assumes "get_last_report dp = Some R" and "get_last_visit dp = Some V"
    and "visit_time V \<le> report_time R"
  shows "get_last_state states actions dp = Inr (report_state R)"
  using assms
  by (simp add: get_last_state_def last_report_or_visit_state_def)

theorem get_last_state_report_not_before_visit_witness:
  "get_last_report equal_times_dp = Some full_report
   \<and> get_last_visit equal_times_dp = Some (emptying_visit\<lparr>visit_time := 1000000000\<rparr>)
   \<and> visit_time (emptying_visit\<lparr>visit_time := 1000000000\<rparr>) \<le> report_time full_report
   \<and> visit_action (emptying_visit\<lparr>visit_time := 1000000000\<rparr>) = example_actions ! 0
   \<and> get_last_state example_states example_actions equal_times_dp = Inr ''FULL''"
proof -
  have r: "get_last_report equal_times_dp = Some full_report"
    by (simp add: query_defs equal_times_dp_def example_defs)
  have v: "get_last_visit equal_times_dp = Some (emptying_visit\<lparr>visit_time := 1000000000\<rparr>)"
    by (simp add: query_defs equal_times_dp_def example_defs)
  have t: "visit_time (emptying_visit\<lparr>visit_time := 1000000000\<rparr>) \<le> report_time full_report"
    by (simp add: example_defs)
  from get_last_state_report_not_before_visit [OF r v t] r v t show ?thesis
    by (simp add: example_defs)
qed







subsection \<open>Removal\<close>

text \<open>
  Claim C7, as stated, fails: a removal time that precedes the creation time is accepted
  and stored.
\<close>

theorem remove_dp_before_creation_accepted:
  "dp_removed late_created_dp = None \<and> (500000000 :: int) < dp_time late_created_dp
   \<and> remove_dp late_created_dp (ArgDatetime 500000000) 2000000000
       = (None, late_created_dp\<lparr>dp_removed := Some 500000000\<rparr>)"
  by (simp add: remove_dp_def late_created_dp_def example_defs)

text \<open>
  Claim C7, amended. \<open>remove\<close> raises and leaves the drop point unchanged whenever the
  drop point is already removed and whenever the given removal time is in the future;
  otherwise it sets \<open>removed\<close> to the given time, or to the current time if none is given.
  The given time is not compared with the creation time. (An argument that is not a
  time raises as well.)
\<close>

theorem remove_dp_outcomes:
  "(dp_removed dp \<noteq> None \<longrightarrow> remove_dp dp time today = (Some RuntimeError, dp))
   \<and> (dp_removed dp = None \<and> today < t \<longrightarrow>
        remove_dp dp (ArgDatetime t) today = (Some ValueError, dp))
   \<and> (dp_removed dp = None \<and> t \<le> today \<longrightarrow>
        remove_dp dp (ArgDatetime t) today = (None, dp\<lparr>dp_removed := Some t\<rparr>))
   \<and> (dp_removed dp = None \<longrightarrow>
        remove_dp dp ArgNone today = (None, dp\<lparr>dp_removed := Some today\<rparr>))
   \<and> (dp_removed dp = None \<longrightarrow> remove_dp dp ArgOther today = (Some TypeError, dp))"
  by (simp add: remove_dp_def)

theorem remove_dp_outcomes_witness:
  "dp_removed removed_dp \<noteq> None
   \<and> remove_dp removed_dp (ArgDatetime 3500000000) 4000000000 = (Some RuntimeError, removed_dp)
   \<and> dp_removed fresh_dp = None \<and> (4000000000 :: int) < 5000000000
   \<and> remove_dp fresh_dp (ArgDatetime 5000000000) 4000000000 = (Some ValueError, fresh_dp)
   \<and> (3500000000 :: int) \<le> 4000000000
   \<and> remove_dp fresh_dp (ArgDatetime 3500000000) 4000000000
        = (None, fresh_dp\<lparr>dp_removed := Some 3500000000\<rparr>)
   \<and> remove_dp fresh_dp ArgNone 4000000000 = (None, fresh_dp\<lparr>dp_removed := Some 4000000000\<rparr>)"
proof -
  have r: "dp_removed removed_dp \<noteq> None" and f: "dp_removed fresh_dp = None"
    by (simp_all add: example_defs)
  from remove_dp_outcomes [of removed_dp "ArgDatetime 3500000000" 4000000000 0]
    remove_dp_outcomes [of fresh_dp ArgNone 4000000000 5000000000]
    remove_dp_outcomes [of fresh_dp ArgNone 4000000000 3500000000] r f
  show ?thesis by simp
qed

subsection \<open>The history\<close>

text \<open>
  Claim C8. The history holds exactly one entry for each visit, each report and each
  location, one entry for the creation, and one entry for the removal exactly when the
  drop point is removed; it is sorted by time, descending; and entries with the same time
  always come in the order in which they were collected (visits, reports, locations,
  creation, removal), so that the same histories always give the same order.
\<close>

theorem get_history_merged_sorted_stable:
  "mset (get_history dp) =
     mset (map (\<lambda>v. VisitEntry (visit_time v) v) (dp_visits dp))
     + mset (map (\<lambda>r. ReportEntry (report_time r) r) (dp_reports dp))
     + mset (map (\<lambda>l. LocationEntry (location_time l) l) (dp_location_rows dp))
     + {#DropPointEntry (dp_time dp) (dp_number dp)#}
     + (case dp_removed dp of Some t \<Rightarrow> {#RemovedEntry t#} | None \<Rightarrow> {#})
   \<and> sorted_wrt (\<lambda>e e'. entry_time e' \<le> entry_time e) (get_history dp)
   \<and> (\<forall>t. filter (\<lambda>e. entry_time e = t) (get_history dp)
            = filter (\<lambda>e. entry_time e = t) (history_entries dp))"
proof -
  have "mset (locations dp) = mset (dp_location_rows dp)"
    by (simp add: locations_def)
  then have "mset (map (\<lambda>l. LocationEntry (location_time l) l) (locations dp))
           = mset (map (\<lambda>l. LocationEntry (location_time l) l) (dp_location_rows dp))"
    by (metis mset_map)
  then have "mset (history_entries dp) =
     mset (map (\<lambda>v. VisitEntry (visit_time v) v) (dp_visits dp))
     + mset (map (\<lambda>r. ReportEntry (report_time r) r) (dp_reports dp))
     + mset (map (\<lambda>l. LocationEntry (location_time l) l) (dp_location_rows dp))
     + {#DropPointEntry (dp_time dp) (dp_number dp)#}
     + (case dp_removed dp of Some t \<Rightarrow> {#RemovedEntry t#} | None \<Rightarrow> {#})"
    by (simp add: history_entries_def split: option.splits)
  then show ?thesis
    by (simp add: get_history_def mset_sorted_desc sorted_desc_descending sorted_desc_stable)
qed

lemma get_history_equal_times_example:
  "get_history equal_times_dp =
     [VisitEntry 1000000000 (emptying_visit\<lparr>visit_time := 1000000000\<rparr>),
      ReportEntry 1000000000 full_report,
      RemovedEntry 1000000000,
      LocationEntry 0 example_location,
      DropPointEntry 0 1]"
  by (simp add: get_history_def history_entries_def sorted_desc_def locations_def
      equal_times_dp_def example_defs)

subsection \<open>The current location\<close>

text \<open>
  Claim C9, as stated, fails: the current time plays no part, and a location whose time
  lies in the future is returned although an earlier location exists.
\<close>

theorem get_current_location_in_future:
  "get_current_location relocated_dp = Some future_location
   \<and> (5000000000 :: int) < location_time future_location
   \<and> example_location \<in> set (locations relocated_dp)
   \<and> location_time example_location \<le> 5000000000"
  by (simp add: get_current_location_def locations_def relocated_dp_def future_location_def
      example_defs)

text \<open>
  Claim C9, amended. \<open>get_current_location\<close> returns \<open>None\<close> exactly when the drop point
  has no locations, and otherwise a location of the drop point whose time is the greatest
  of all its locations, whether or not that time is in the future.
\<close>

theorem get_current_location_latest:
  "(get_current_location dp = None \<longleftrightarrow> dp_location_rows dp = [])
   \<and> (\<forall>l. get_current_location dp = Some l \<longrightarrow>
          l \<in> set (dp_location_rows dp)
          \<and> (\<forall>l'\<in>set (dp_location_rows dp). location_time l' \<le> location_time l))"
proof -
  have n: "locations dp = [] \<longleftrightarrow> dp_location_rows dp = []"
    by (metis locations_def set_sort set_empty)
  have "l \<in> set (dp_location_rows dp)
          \<and> (\<forall>l'\<in>set (dp_location_rows dp). location_time l' \<le> location_time l)"
    if "get_current_location dp = Some l" for l
  proof -
    from that have ne: "locations dp \<noteq> []" and l: "l = last (locations dp)"
      by (auto simp: get_current_location_def split: if_splits)
    then obtain ys where ys: "locations dp = ys @ [l]"
      by (metis append_butlast_last_id)
    have "set (locations dp) = set (dp_location_rows dp)"
      by (simp add: locations_def)
    moreover have "sorted (map location_time (locations dp))"
      by (simp add: locations_def)
    ultimately show ?thesis
      using ys by (auto simp: sorted_append)
  qed
  with n show ?thesis
    by (auto simp: get_current_location_def)
qed

theorem get_current_location_latest_witness:
  "get_current_location fresh_dp = Some example_location
   \<and> example_location \<in> set (dp_location_rows fresh_dp)"
  using get_current_location_latest [of fresh_dp]
  by (simp add: get_current_location_def locations_def example_defs)

subsection \<open>Statistics\<close>

lemma last_state_AttributeError: "last_state states actions dp = Inl AttributeError"
  by (simp add: last_state_def DropPoint_attributes_def)

lemma tally_loop_unchanged: "snd (tally_loop states actions ret dps) = ret"
  by (induction dps) (simp_all add: last_state_AttributeError)

lemma fold_zero:
  "fold (\<lambda>state ret. ret(state \<mapsto> 0 :: nat)) states m =
     (\<lambda>s. if s \<in> set states then Some 0 else m s)"
  by (induction states arbitrary: m) (auto simp: fun_eq_iff)

text \<open>
  Claim C10. Whatever the store holds, \<open>drop_points_by_state\<close> returns the dictionary
  that maps every report state to 0: reading \<open>last_state\<close> raises for the first drop point
  that is not removed, and the exception is swallowed.
\<close>

theorem drop_points_by_state_all_zero:
  "drop_points_by_state states actions query_all =
     (\<lambda>s. if s \<in> set states then Some 0 else None)"
  by (simp add: drop_points_by_state_def fold_zero tally_loop_unchanged Let_def split: sum.splits)

end
